theory Spec2Isabelle
  imports Main "HOL-Library.Word"
begin

section \<open>Values shared by the whole package\<close>

type_synonym byte = "8 word"

text \<open>
  Modelled from the spec: the error types \<open>InvalidMethodError\<close> and \<open>BadStatusError\<close> are
  declared in errors.go, which is not part of the sources at hand; request.go and client.go
  build them by conversion from the method string and from the status code, so each is a
  constructor carrying that value.

  The other values of Go's \<open>error\<close>: \<open>EOF\<close> is \<open>io.EOF\<close>; \<open>Errorf\<close> is an error
  built by \<open>fmt.Errorf\<close> from its message; \<open>Opaque\<close> is an error of a collaborator
  (transport, encoder, decoder, URL parser, a stream's Read), named by its message.
\<close>

datatype error =
    EOF
  | InvalidMethodError string
  | BadStatusError int
  | Errorf string
  | Opaque string

text \<open>A call either returns or panics (a nil dereference, a method call on a nil interface).\<close>

datatype 'a outcome = Returns 'a | Panics

section \<open>request.go\<close>

text \<open>The method names of net/http.\<close>

definition MethodGet :: string where "MethodGet = ''GET''"
definition MethodHead :: string where "MethodHead = ''HEAD''"
definition MethodPost :: string where "MethodPost = ''POST''"
definition MethodPut :: string where "MethodPut = ''PUT''"
definition MethodPatch :: string where "MethodPatch = ''PATCH''"
definition MethodDelete :: string where "MethodDelete = ''DELETE''"
definition MethodConnect :: string where "MethodConnect = ''CONNECT''"
definition MethodOptions :: string where "MethodOptions = ''OPTIONS''"
definition MethodTrace :: string where "MethodTrace = ''TRACE''"

text \<open>
  The \<open>Encoder\<close> interface, as the README gives it: \<open>ContentType() string\<close> and
  \<open>Encode(interface{}) (io.Reader, error)\<close>. \<open>'b\<close> is the type of request bodies and
  \<open>'rd\<close> the type of the readers an encoder produces; a nil reader is \<open>None\<close>, a nil
  error is \<open>None\<close>. An implementation may return any pair.
\<close>

record ('b, 'rd) Encoder =
  ContentType :: string
  Encode :: "'b \<Rightarrow> 'rd option \<times> error option"

type_synonym Header = "string \<rightharpoonup> string list"

text \<open>
  \<open>Request\<close>: a nil context, nil headers, a nil body and a nil encoder are \<open>None\<close>.
\<close>

record ('b, 'rd, 'c) Request =
  Ctx :: "'c option"
  Method :: string
  URL :: string
  Headers :: "Header option"
  Body :: "'b option"
  Encoder :: "('b, 'rd) Encoder option"

definition validMethod :: "string \<Rightarrow> bool" where
  "validMethod method =
     (if method = MethodGet then True
      else if method = MethodHead then True
      else if method = MethodPost then True
      else if method = MethodPut then True
      else if method = MethodPatch then True
      else if method = MethodDelete then True
      else if method = MethodConnect then True
      else if method = MethodOptions then True
      else if method = MethodTrace then True
      else False)"

definition validate :: "('b, 'rd, 'c) Request \<Rightarrow> error option" where
  "validate r =
     (if \<not> validMethod (Method r) then Some (InvalidMethodError (Method r))
      else None)"

definition prepareBody ::
  "('b, 'rd, 'c) Request \<Rightarrow> ('b, 'rd) Encoder option \<Rightarrow> 'rd option \<times> string \<times> error option"
where
  "prepareBody r defaultEncoder =
     (case Body r of
        None \<Rightarrow> (None, '''', None)
      | Some b \<Rightarrow>
          (let enc = (case Encoder r of None \<Rightarrow> defaultEncoder | Some e \<Rightarrow> Some e) in
           case enc of
             None \<Rightarrow>
               (None, '''',
                Some (Errorf ''request has body but no encoder set on client or request''))
           | Some enc \<Rightarrow>
               (case Encode enc b of
                  (reader, Some err) \<Rightarrow> (None, '''', Some err)
                | (reader, None) \<Rightarrow> (reader, ContentType enc, None))))"

section \<open>response.go: decode hooks\<close>

text \<open>
  A decode target is an \<open>interface{}\<close>: nil, a \<open>DecodeHook\<close>, or any other value
  (\<open>'v\<close>, usually a pointer to the destination). A \<open>DecodeHook\<close> is a function from
  the status code to such a value; Go's \<open>int\<close> is only compared here, so it is \<open>int\<close>.
\<close>

datatype 'v iface = Nil | Hook "int \<Rightarrow> 'v iface" | Value 'v

type_synonym 'v DecodeHook = "int \<Rightarrow> 'v iface"

definition On2xx :: "'v iface \<Rightarrow> 'v DecodeHook" where
  "On2xx v = (\<lambda>status. if status \<ge> 200 \<and> status < 300 then v else Nil)"

definition On4xx :: "'v iface \<Rightarrow> 'v DecodeHook" where
  "On4xx v = (\<lambda>status. if status \<ge> 400 \<and> status < 500 then v else Nil)"

definition On5xx :: "'v iface \<Rightarrow> 'v DecodeHook" where
  "On5xx v = (\<lambda>status. if status \<ge> 500 \<and> status < 600 then v else Nil)"

definition OnNon2xx :: "'v iface \<Rightarrow> 'v DecodeHook" where
  "OnNon2xx v = (\<lambda>status. if status \<ge> 200 \<and> status < 300 then Nil else v)"

definition OnStatus :: "int \<Rightarrow> 'v iface \<Rightarrow> 'v DecodeHook" where
  "OnStatus status v = (\<lambda>s. if status = s then v else Nil)"

section \<open>response.go: the body\<close>

text \<open>
  \<open>http.Response.Body\<close> is an interface value holding a pointer, and \<open>BodyBytes\<close>
  replaces it while the stream it pointed to lives on. So the readers live in a store:
  an address is an index into a list of objects, and allocation appends.

  A transport stream is any \<open>io.ReadCloser\<close> that is not a \<open>*bufCloser\<close>: its
  \<open>k\<close>-th call of Read returns the bytes and the error \<open>script k\<close>; \<open>pos\<close> counts the
  calls of Read so far and \<open>closes\<close> the calls of Close.
\<close>

record stream =
  script :: "nat \<Rightarrow> byte list \<times> error option"
  pos :: nat
  closes :: nat

text \<open>
  \<open>bufCloser\<close> embeds \<open>bytes.Buffer\<close>: the bytes written so far and the read offset.
\<close>

record bufCloser =
  buf :: "byte list"
  off :: nat

datatype obj = Stream stream | BufCloser bufCloser

type_synonym addr = nat
type_synonym heap = "obj list"

definition lookup :: "heap \<Rightarrow> addr \<Rightarrow> obj option" where
  "lookup h a = (if a < length h then Some (h ! a) else None)"

definition alloc :: "heap \<Rightarrow> obj \<Rightarrow> addr \<times> heap" where
  "alloc h x = (length h, h @ [x])"

definition Read :: "stream \<Rightarrow> (byte list \<times> error option) \<times> stream" where
  "Read s = (script s (pos s), s\<lparr>pos := Suc (pos s)\<rparr>)"

text \<open>The stream's Close; \<open>BodyBytes\<close> drops the error it returns.\<close>

definition Close :: "stream \<Rightarrow> stream" where
  "Close s = s\<lparr>closes := Suc (closes s)\<rparr>"

text \<open>\<open>bytes.Buffer\<close>: Bytes is the unread part, Write appends and never fails.\<close>

definition Bytes :: "bufCloser \<Rightarrow> byte list" where
  "Bytes b = drop (off b) (buf b)"

definition Write :: "bufCloser \<Rightarrow> byte list \<Rightarrow> bufCloser" where
  "Write b p = b\<lparr>buf := buf b @ p\<rparr>"

text \<open>One Read of \<open>io.TeeReader(rc, buf)\<close>: what was read is written to the buffer.\<close>

definition teeRead ::
  "stream \<Rightarrow> bufCloser \<Rightarrow> (byte list \<times> error option) \<times> stream \<times> bufCloser"
where
  "teeRead rc b =
     (case Read rc of
        ((p, err), rc') \<Rightarrow>
          if p \<noteq> [] then ((p, err), rc', Write b p) else ((p, err), rc', b))"

text \<open>
  \<open>ioutil.ReadAll\<close> on the tee reader: it reads until a Read returns an error, returns
  what it has read, and turns \<open>io.EOF\<close> into no error. On a stream that never returns
  an error it does not return: the value is \<open>None\<close>.
\<close>

partial_function (option) ReadAll ::
  "stream \<Rightarrow> bufCloser \<Rightarrow> byte list
     \<Rightarrow> ((byte list \<times> error option) \<times> stream \<times> bufCloser) option"
where
  "ReadAll rc b acc =
     (case teeRead rc b of
        ((p, err), rc', b') \<Rightarrow>
          (case err of
             None \<Rightarrow> ReadAll rc' b' (acc @ p)
           | Some e \<Rightarrow>
               Some ((acc @ p, if e = EOF then None else Some e), rc', b')))"

text \<open>
  \<open>http.Response\<close>, as far as the package reads it; a nil Body is \<open>None\<close>.
  \<open>Response\<close> embeds a \<open>*http.Response\<close>, nil being \<open>None\<close>; a \<open>*Response\<close> is a
  \<open>Response option\<close>.
\<close>

record http_Response =
  StatusCode :: int
  resp_Header :: Header
  resp_Body :: "addr option"

record Response =
  Response :: "http_Response option"

text \<open>
  \<open>BodyBytes\<close> returns the bytes and the error, the response with its body replaced
  and the store. The deferred Close runs after ReadAll has returned. Reading \<open>r.Body\<close>
  of a nil embedded response panics, and so does Read on a nil Body.
\<close>

definition BodyBytes ::
  "heap \<Rightarrow> Response \<Rightarrow> ((byte list \<times> error option) \<times> Response \<times> heap) outcome option"
where
  "BodyBytes h r =
     (case Response r of
        None \<Rightarrow> Some Panics
      | Some hr \<Rightarrow>
          (case resp_Body hr of
             None \<Rightarrow> Some Panics
           | Some a \<Rightarrow>
               (case lookup h a of
                  None \<Rightarrow> Some Panics
                | Some (BufCloser rc) \<Rightarrow> Some (Returns ((Bytes rc, None), r, h))
                | Some (Stream rc) \<Rightarrow>
                    (case alloc h (BufCloser \<lparr>buf = [], off = 0\<rparr>) of
                       (p, h1) \<Rightarrow>
                         (let r' = r\<lparr>Response := Some (hr\<lparr>resp_Body := Some p\<rparr>)\<rparr> in
                          case ReadAll rc \<lparr>buf = [], off = 0\<rparr> [] of
                            None \<Rightarrow> None
                          | Some (res, rc', b') \<Rightarrow>
                              Some (Returns (res, r',
                                h1[p := BufCloser b', a := Stream (Close rc')])))))))"

definition BodyString ::
  "heap \<Rightarrow> Response \<Rightarrow> ((string \<times> error option) \<times> Response \<times> heap) outcome option"
where
  "BodyString h r =
     (case BodyBytes h r of
        None \<Rightarrow> None
      | Some Panics \<Rightarrow> Some Panics
      | Some (Returns ((b, err), r', h')) \<Rightarrow>
          Some (Returns ((map (\<lambda>w. char_of (unat w)) b, err), r', h')))"

section \<open>response.go: decoding\<close>

text \<open>
  Modelled from the spec: the \<open>Decoder\<close> interface is declared outside the sources at
  hand. \<open>DecodeUsing\<close> calls its one method as \<open>dec.Decode(body, receiver)\<close> and gets an
  error; the method fills the destination, so it changes a state \<open>'w\<close> of the
  destinations.
\<close>

type_synonym ('v, 'w) Decoder = "byte list \<Rightarrow> 'v iface \<Rightarrow> 'w \<Rightarrow> error option \<times> 'w"

text \<open>
  The type switch at the head of the loop of \<open>DecodeUsing\<close>: a \<open>DecodeHook\<close> is
  replaced by its value at \<open>r.StatusCode\<close> (a panic when the embedded response is
  nil), any other target is kept.
\<close>

definition switchReceiver :: "Response \<Rightarrow> 'v iface \<Rightarrow> 'v iface outcome" where
  "switchReceiver r receiver =
     (case receiver of
        Hook v \<Rightarrow>
          (case Response r of
             None \<Rightarrow> Panics
           | Some hr \<Rightarrow> Returns (v (StatusCode hr)))
      | _ \<Rightarrow> Returns receiver)"

text \<open>
  The loop of \<open>DecodeUsing\<close> over the targets. Besides the error and the state of the
  destinations it returns the receivers \<open>dec.Decode\<close> was called with, in order.
  Calling Decode on a nil decoder panics.
\<close>

fun decodeTargets ::
  "('v, 'w) Decoder option \<Rightarrow> byte list \<Rightarrow> Response \<Rightarrow> 'v iface list \<Rightarrow> 'w \<Rightarrow> 'v iface list
     \<Rightarrow> (error option \<times> 'w \<times> 'v iface list) outcome"
where
  "decodeTargets dec body r [] w calls = Returns (None, w, calls)"
| "decodeTargets dec body r (t # targets) w calls =
     (case switchReceiver r t of
        Panics \<Rightarrow> Panics
      | Returns Nil \<Rightarrow> decodeTargets dec body r targets w calls
      | Returns receiver \<Rightarrow>
          (case dec of
             None \<Rightarrow> Panics
           | Some d \<Rightarrow>
               (case d body receiver w of
                  (Some err, w') \<Rightarrow> Returns (Some err, w', calls @ [receiver])
                | (None, w') \<Rightarrow>
                    decodeTargets dec body r targets w' (calls @ [receiver]))))"

definition DecodeUsing ::
  "heap \<Rightarrow> Response \<Rightarrow> ('v, 'w) Decoder option \<Rightarrow> 'v iface list \<Rightarrow> 'w
     \<Rightarrow> (error option \<times> Response \<times> heap \<times> 'w \<times> 'v iface list) outcome option"
where
  "DecodeUsing h r dec targets w =
     (case BodyBytes h r of
        None \<Rightarrow> None
      | Some Panics \<Rightarrow> Some Panics
      | Some (Returns ((body, err), r', h')) \<Rightarrow>
          (case err of
             Some e \<Rightarrow> Some (Returns (Some e, r', h', w, []))
           | None \<Rightarrow>
               (case decodeTargets dec body r' targets w [] of
                  Panics \<Rightarrow> Some Panics
                | Returns (e, w', calls) \<Rightarrow> Some (Returns (e, r', h', w', calls)))))"

section \<open>client.go\<close>

text \<open>
  \<open>http.Request\<close>, as far as \<open>send\<close> touches it, and the \<open>Doer\<close> interface
  \<open>Do(*http.Request) (*http.Response, error)\<close>: an implementation may return any pair.
\<close>

record ('rd, 'c) http_Request =
  req_Method :: string
  req_URL :: string
  req_Body :: "'rd option"
  req_Ctx :: "'c option"
  req_Header :: Header

type_synonym ('rd, 'c) Doer = "('rd, 'c) http_Request \<Rightarrow> http_Response option \<times> error option"

record ('b, 'rd, 'c) Client =
  BaseURL :: string
  DefaultEncoder :: "('b, 'rd) Encoder option"
  StatusValidator :: "(int \<Rightarrow> bool) option"
  BaseClient :: "('rd, 'c) Doer option"

text \<open>
  The functions of the standard library that \<open>send\<close> calls are parameters: \<open>url.Parse\<close>,
  \<open>ResolveReference\<close> followed by \<open>String\<close>, and \<open>http.NewRequest\<close>. Each of the two
  that can fail returns either an error or a value.
\<close>

record ('u, 'rd, 'c) stdlib =
  url_Parse :: "string \<Rightarrow> error + 'u"
  ResolveReference :: "'u \<Rightarrow> 'u \<Rightarrow> 'u"
  url_String :: "'u \<Rightarrow> string"
  NewRequest :: "string \<Rightarrow> string \<Rightarrow> 'rd option \<Rightarrow> error + ('rd, 'c) http_Request"

text \<open>\<open>Header.Get\<close> and \<open>Header.Set\<close> at a key that is already in canonical form.\<close>

definition Header_Get :: "Header \<Rightarrow> string \<Rightarrow> string" where
  "Header_Get h key = (case h key of None \<Rightarrow> '''' | Some [] \<Rightarrow> '''' | Some (v # _) \<Rightarrow> v)"

definition Header_Set :: "Header \<Rightarrow> string \<Rightarrow> string \<Rightarrow> Header" where
  "Header_Set h key v = h(key \<mapsto> [v])"

definition DefaultStatusValidator :: "int \<Rightarrow> bool" where
  "DefaultStatusValidator status = (status \<ge> 200 \<and> status < 300)"

text \<open>
  \<open>Client.Do\<close>. The status validator is called only when it is not nil, and reading
  \<open>rsp.StatusCode\<close> of a nil response panics, as does calling Do on a nil base client.
\<close>

definition Do ::
  "('b, 'rd, 'c) Client \<Rightarrow> ('rd, 'c) http_Request
     \<Rightarrow> (http_Response option \<times> error option) outcome"
where
  "Do c req =
     (case BaseClient c of
        None \<Rightarrow> Panics
      | Some d \<Rightarrow>
          (case d req of
             (rsp, Some err) \<Rightarrow> Returns (None, Some err)
           | (rsp, None) \<Rightarrow>
               (case StatusValidator c of
                  None \<Rightarrow> Returns (rsp, None)
                | Some sv \<Rightarrow>
                    (case rsp of
                       None \<Rightarrow> Panics
                     | Some hr \<Rightarrow>
                         if \<not> sv (StatusCode hr)
                         then Returns (rsp, Some (BadStatusError (StatusCode hr)))
                         else Returns (rsp, None)))))"

text \<open>
  The part of \<open>send\<close> under its comment "Build the HTTP request": the path, the body,
  the request of the transport, its context and its headers.
\<close>

definition buildRequest ::
  "('u, 'rd, 'c) stdlib \<Rightarrow> ('b, 'rd, 'c) Client \<Rightarrow> ('b, 'rd, 'c) Request
     \<Rightarrow> error + ('rd, 'c) http_Request"
where
  "buildRequest lib c request =
     (case (if BaseURL c \<noteq> ''''
            then (case url_Parse lib (BaseURL c) of
                    Inl err \<Rightarrow> Inl err
                  | Inr base \<Rightarrow>
                      (case url_Parse lib (URL request) of
                         Inl err \<Rightarrow> Inl err
                       | Inr ref \<Rightarrow> Inr (url_String lib (ResolveReference lib base ref))))
            else Inr (URL request)) of
        Inl err \<Rightarrow> Inl err
      | Inr path \<Rightarrow>
          (case prepareBody request (DefaultEncoder c) of
             (body, contentType, Some err) \<Rightarrow> Inl err
           | (body, contentType, None) \<Rightarrow>
               (case NewRequest lib (Method request) path body of
                  Inl err \<Rightarrow> Inl err
                | Inr req0 \<Rightarrow>
                    (let req1 = (case Ctx request of
                                   None \<Rightarrow> req0
                                 | Some ctx \<Rightarrow> req0\<lparr>req_Ctx := Some ctx\<rparr>);
                         req2 = (case Headers request of
                                   None \<Rightarrow> req1
                                 | Some hs \<Rightarrow> req1\<lparr>req_Header := hs\<rparr>);
                         req3 = (if contentType \<noteq> ''''
                                    \<and> Header_Get (req_Header req2) ''Content-Type'' = ''''
                                 then req2\<lparr>req_Header :=
                                        Header_Set (req_Header req2) ''Content-Type'' contentType\<rparr>
                                 else req2)
                     in Inr req3))))"

text \<open>
  \<open>send\<close>: validation, the request, then the part under "Make the HTTP request",
  which wraps whatever \<open>Do\<close> returned in a new \<open>Response\<close>.
\<close>

definition send ::
  "('u, 'rd, 'c) stdlib \<Rightarrow> ('b, 'rd, 'c) Client \<Rightarrow> ('b, 'rd, 'c) Request
     \<Rightarrow> (Response option \<times> error option) outcome"
where
  "send lib c request =
     (case validate request of
        Some err \<Rightarrow> Returns (None, Some err)
      | None \<Rightarrow>
          (case buildRequest lib c request of
             Inl err \<Rightarrow> Returns (None, Some err)
           | Inr req \<Rightarrow>
               (case Do c req of
                  Panics \<Rightarrow> Panics
                | Returns (rsp, err) \<Rightarrow> Returns (Some \<lparr>Response = rsp\<rparr>, err))))"

section \<open>future.go and Client.Send\<close>

text \<open>
  A \<open>Future\<close>: \<open>done_closed\<close> is true once the channel \<open>done\<close> is closed (nothing is ever sent on
  it); \<open>'r\<close> is the type of the pointers to responses, nil being \<open>None\<close>.
\<close>

record 'r Future =
  done_closed :: bool
  response :: "'r option"
  err :: "error option"

text \<open>
  \<open>Future.Response\<close> receives from \<open>done\<close>, which blocks as long as the channel is
  open (\<open>None\<close>), and then returns the two fields.
\<close>

definition Future_Response :: "'r Future \<Rightarrow> ('r option \<times> error option) option" where
  "Future_Response f = (if done_closed f then Some (response f, err f) else None)"

text \<open>
  The goroutine that \<open>Send\<close> starts: it calls \<open>send\<close>, assigns the two fields, and
  its deferred \<open>close(done)\<close> runs last; when \<open>send\<close> panics the deferred close runs
  too and the program then dies. \<open>result\<close> is what the call of \<open>send\<close> does:
  \<open>None\<close> when it never returns.
\<close>

datatype pc = AtSend | AtClose | Exited | Panicking | Crashed

record 'r system =
  ftr :: "'r Future"
  goroutine :: pc

definition Send :: "'r system" where
  "Send = \<lparr>ftr = \<lparr>done_closed = False, response = None, err = None\<rparr>, goroutine = AtSend\<rparr>"

definition goroutine_step ::
  "('r option \<times> error option) outcome option \<Rightarrow> 'r system \<Rightarrow> 'r system"
where
  "goroutine_step result s =
     (case goroutine s of
        AtSend \<Rightarrow>
          (case result of
             None \<Rightarrow> s
           | Some Panics \<Rightarrow> s\<lparr>goroutine := Panicking\<rparr>
           | Some (Returns (rsp, e)) \<Rightarrow>
               s\<lparr>ftr := (ftr s)\<lparr>response := rsp, err := e\<rparr>, goroutine := AtClose\<rparr>)
      | AtClose \<Rightarrow> s\<lparr>ftr := (ftr s)\<lparr>done_closed := True\<rparr>, goroutine := Exited\<rparr>
      | Panicking \<Rightarrow> s\<lparr>ftr := (ftr s)\<lparr>done_closed := True\<rparr>, goroutine := Crashed\<rparr>
      | Exited \<Rightarrow> s
      | Crashed \<Rightarrow> s)"

text \<open>The state after \<open>n\<close> steps of the goroutine since \<open>Send\<close> returned.\<close>

fun after :: "('r option \<times> error option) outcome option \<Rightarrow> nat \<Rightarrow> 'r system" where
  "after result 0 = Send"
| "after result (Suc n) = goroutine_step result (after result n)"

section \<open>Example values\<close>

text \<open>
  A transport stream that delivers "hi" and then "!" together with \<open>io.EOF\<close>, a
  store holding it, and a response with status 404 whose body it is; then the store
  and the response as \<open>BodyBytes\<close> leaves them.
\<close>

definition example_stream :: stream where
  "example_stream =
     \<lparr>script = (\<lambda>k. if k = 0 then ([104, 105], None) else ([33], Some EOF)),
      pos = 0, closes = 0\<rparr>"

definition example_heap :: heap where
  "example_heap = [Stream example_stream]"

definition example_response :: Response where
  "example_response =
     \<lparr>Response = Some \<lparr>StatusCode = 404, resp_Header = Map.empty, resp_Body = Some 0\<rparr>\<rparr>"

definition example_heap_read :: heap where
  "example_heap_read =
     [Stream (example_stream\<lparr>pos := 2, closes := 1\<rparr>),
      BufCloser \<lparr>buf = [104, 105, 33], off = 0\<rparr>]"

definition example_response_read :: Response where
  "example_response_read =
     \<lparr>Response = Some \<lparr>StatusCode = 404, resp_Header = Map.empty, resp_Body = Some 1\<rparr>\<rparr>"

text \<open>
  A decoder whose destinations are numbered: it fails on destination 2 and on anything
  that is not a destination, and otherwise records the destination it has filled.
\<close>

definition example_decoder :: "(nat, nat list) Decoder" where
  "example_decoder body v w =
     (case v of
        Value n \<Rightarrow>
          if n = 2 then (Some (Opaque ''cannot decode''), w) else (None, w @ [n])
      | _ \<Rightarrow> (Some (Opaque ''not a destination''), w))"

text \<open>
  An encoder that rejects the body 0, a request without a body, stand-ins for the
  functions of the standard library, a client whose transport refuses the connection
  and a client whose transport answers every request with status 500.
\<close>

definition example_encoder :: "(nat, string) Encoder" where
  "example_encoder =
     \<lparr>ContentType = ''application/json; charset=utf-8'',
      Encode = (\<lambda>n. if n = 0 then (None, Some (Opaque ''unsupported value''))
                     else (Some ''{}'', None))\<rparr>"

definition example_request :: "(nat, string, unit) Request" where
  "example_request =
     \<lparr>Ctx = None, Method = ''GET'', URL = ''http://example.com/user/204'',
      Headers = None, Body = None, Encoder = None\<rparr>"

definition example_lib :: "(string, string, unit) stdlib" where
  "example_lib =
     \<lparr>url_Parse = (\<lambda>s. Inr s),
      ResolveReference = (\<lambda>base ref. base @ ref),
      url_String = (\<lambda>u. u),
      NewRequest = (\<lambda>method url body.
        Inr \<lparr>req_Method = method, req_URL = url, req_Body = body, req_Ctx = None,
             req_Header = Map.empty\<rparr>)\<rparr>"

definition refusing_client :: "(nat, string, unit) Client" where
  "refusing_client =
     \<lparr>BaseURL = '''', DefaultEncoder = Some example_encoder,
      StatusValidator = Some DefaultStatusValidator,
      BaseClient = Some (\<lambda>req. (None, Some (Opaque ''connection refused'')))\<rparr>"

definition response500 :: http_Response where
  "response500 = \<lparr>StatusCode = 500, resp_Header = Map.empty, resp_Body = None\<rparr>"

definition client500 :: "(int \<Rightarrow> bool) option \<Rightarrow> (nat, string, unit) Client" where
  "client500 sv =
     \<lparr>BaseURL = '''', DefaultEncoder = Some example_encoder, StatusValidator = sv,
      BaseClient = Some (\<lambda>req. (Some response500, None))\<rparr>"

section \<open>Requests\<close>

lemmas Method_defs =
  MethodGet_def MethodHead_def MethodPost_def MethodPut_def MethodPatch_def
  MethodDelete_def MethodConnect_def MethodOptions_def MethodTrace_def

lemma validMethod_iff:
  "validMethod m \<longleftrightarrow>
     m \<in> {''GET'', ''HEAD'', ''POST'', ''PUT'', ''PATCH'', ''DELETE'',
           ''CONNECT'', ''OPTIONS'', ''TRACE''}"
  unfolding validMethod_def Method_defs by auto

text \<open>
  C6: \<open>validate\<close> returns no error exactly when the method is one of GET, HEAD, POST,
  PUT, PATCH, DELETE, CONNECT, OPTIONS and TRACE; for any other method it returns the
  \<open>InvalidMethodError\<close> of that method; and the other fields of the request do not
  matter.
\<close>

theorem validate_recognized_methods:
  "(validate r = None \<longleftrightarrow>
      Method r \<in> {''GET'', ''HEAD'', ''POST'', ''PUT'', ''PATCH'', ''DELETE'',
                  ''CONNECT'', ''OPTIONS'', ''TRACE''})
   \<and> (Method r \<notin> {''GET'', ''HEAD'', ''POST'', ''PUT'', ''PATCH'', ''DELETE'',
                    ''CONNECT'', ''OPTIONS'', ''TRACE''}
        \<longrightarrow> validate r = Some (InvalidMethodError (Method r)))
   \<and> validate (r\<lparr>Ctx := c, URL := u, Headers := hs, Body := b, Encoder := e\<rparr>) = validate r"
  unfolding validate_def validMethod_iff by simp

theorem validate_recognized_methods_witness:
  "Method (example_request\<lparr>Method := ''BREW''\<rparr>)
     \<notin> {''GET'', ''HEAD'', ''POST'', ''PUT'', ''PATCH'', ''DELETE'',
        ''CONNECT'', ''OPTIONS'', ''TRACE''}
   \<and> validate (example_request\<lparr>Method := ''BREW''\<rparr>) = Some (InvalidMethodError ''BREW'')
   \<and> validate (example_request\<lparr>Method := ''PATCH''\<rparr>) = None"
  using validate_recognized_methods [of "example_request\<lparr>Method := ''BREW''\<rparr>"]
    validate_recognized_methods [of "example_request\<lparr>Method := ''PATCH''\<rparr>"]
  by simp

text \<open>
  C7: \<open>prepareBody\<close> returns no stream, an empty content type and no error when the
  body is nil. Otherwise the encoder is the one of the request if it is set and else
  the default one; with neither it fails with the configuration error; an error of
  Encode is returned as it is; and on success the result is the stream of Encode with
  the content type of the encoder.
\<close>

theorem prepareBody_contract:
  "(Body r = None \<longrightarrow> prepareBody r d = (None, '''', None))
   \<and> (Body r = Some b \<and> Encoder r = None \<and> d = None
        \<longrightarrow> prepareBody r d =
              (None, '''',
               Some (Errorf ''request has body but no encoder set on client or request'')))
   \<and> (Body r = Some b \<and> (Encoder r = Some enc \<or> (Encoder r = None \<and> d = Some enc))
        \<longrightarrow> (\<forall>reader e. Encode enc b = (reader, Some e)
                \<longrightarrow> prepareBody r d = (None, '''', Some e))
          \<and> (\<forall>reader. Encode enc b = (reader, None)
                \<longrightarrow> prepareBody r d = (reader, ContentType enc, None)))"
  by (auto simp: prepareBody_def)

theorem prepareBody_contract_witness:
  "Body (example_request\<lparr>Body := Some 7\<rparr>) = Some 7
   \<and> Encoder (example_request\<lparr>Body := Some 7\<rparr>) = None
   \<and> Encode example_encoder 7 = (Some ''{}'', None)
   \<and> prepareBody (example_request\<lparr>Body := Some 7\<rparr>) (Some example_encoder)
       = (Some ''{}'', ''application/json; charset=utf-8'', None)
   \<and> Encode example_encoder 0 = (None, Some (Opaque ''unsupported value''))
   \<and> prepareBody (example_request\<lparr>Body := Some 0\<rparr>) (Some example_encoder)
       = (None, '''', Some (Opaque ''unsupported value''))
   \<and> prepareBody (example_request\<lparr>Body := Some 7\<rparr>) None
       = (None, '''', Some (Errorf ''request has body but no encoder set on client or request''))
   \<and> prepareBody example_request (Some example_encoder) = (None, '''', None)"
  using
    prepareBody_contract [of "example_request\<lparr>Body := Some 7\<rparr>" "Some example_encoder" 7
      example_encoder]
    prepareBody_contract [of "example_request\<lparr>Body := Some 0\<rparr>" "Some example_encoder" 0
      example_encoder]
    prepareBody_contract [of "example_request\<lparr>Body := Some 7\<rparr>" None 7 example_encoder]
    prepareBody_contract [of example_request "Some example_encoder" 7 example_encoder]
  by (simp add: example_request_def example_encoder_def)

section \<open>Decode hooks\<close>

text \<open>
  C8: at a status \<open>s\<close>, \<open>On2xx v\<close> is \<open>v\<close> when \<open>200 \<le> s < 300\<close> and nil
  otherwise, \<open>On4xx\<close> matches 400 to 499, \<open>On5xx\<close> matches 500 to 599, \<open>OnNon2xx\<close>
  matches the statuses outside 200 to 299 and \<open>OnStatus n\<close> matches \<open>n\<close> alone; so
  \<open>On2xx v\<close> is nil at 404 and \<open>v\<close> at 204. For a target that is not nil the hook
  returns it exactly at the matching statuses. A hook returns a target or nil: its
  type has no error.
\<close>

theorem hook_constructors:
  "On2xx v s = (if 200 \<le> s \<and> s < 300 then v else Nil)
   \<and> On4xx v s = (if 400 \<le> s \<and> s < 500 then v else Nil)
   \<and> On5xx v s = (if 500 \<le> s \<and> s < 600 then v else Nil)
   \<and> OnNon2xx v s = (if 200 \<le> s \<and> s < 300 then Nil else v)
   \<and> OnStatus n v s = (if s = n then v else Nil)
   \<and> On2xx v 404 = Nil \<and> On2xx v 204 = v
   \<and> (v \<noteq> Nil \<longrightarrow>
        (On2xx v s = v \<longleftrightarrow> 200 \<le> s \<and> s < 300)
      \<and> (On4xx v s = v \<longleftrightarrow> 400 \<le> s \<and> s < 500)
      \<and> (On5xx v s = v \<longleftrightarrow> 500 \<le> s \<and> s < 600)
      \<and> (OnNon2xx v s = v \<longleftrightarrow> \<not> (200 \<le> s \<and> s < 300))
      \<and> (OnStatus n v s = v \<longleftrightarrow> s = n))"
  by (auto simp: On2xx_def On4xx_def On5xx_def OnNon2xx_def OnStatus_def)

theorem hook_constructors_witness:
  "Value (7::nat) \<noteq> Nil
   \<and> On2xx (Value (7::nat)) 204 = Value 7 \<and> On2xx (Value (7::nat)) 404 = Nil
   \<and> On4xx (Value (7::nat)) 404 = Value 7 \<and> On5xx (Value (7::nat)) 404 = Nil
   \<and> OnNon2xx (Value (7::nat)) 404 = Value 7 \<and> OnStatus 404 (Value (7::nat)) 404 = Value 7
   \<and> OnStatus 404 (Value (7::nat)) 204 = Nil"
  using hook_constructors [of "Value (7::nat)" 204 404]
    hook_constructors [of "Value (7::nat)" 404 404]
  by simp

section \<open>The body\<close>

text \<open>
  What \<open>ReadAll\<close> returns extends the accumulator by the bytes it has written to the
  buffer, and it neither closes the stream nor moves the buffer's read offset.
\<close>

lemma ReadAll_tee_aux:
  assumes "ReadAll rc b acc = Some y"
  shows "\<exists>suffix. fst (fst y) = acc @ suffix \<and> buf (snd (snd y)) = buf b @ suffix
           \<and> off (snd (snd y)) = off b
           \<and> closes (fst (snd y)) = closes rc \<and> script (fst (snd y)) = script rc"
proof (rule ReadAll.raw_induct [OF _ assms], goal_cases)
  case (1 ReadAll' rc b acc y)
  obtain p er where rd: "script rc (pos rc) = (p, er)" by (cases "script rc (pos rc)")
  show ?case
  proof (cases er)
    case None
    with 1(2) rd have call: "ReadAll' (rc\<lparr>pos := Suc (pos rc)\<rparr>)
        (if p \<noteq> [] then Write b p else b) (acc @ p) = Some y"
      by (auto simp: teeRead_def Read_def split: if_splits)
    from 1(1) [OF call] obtain suffix where
      "fst (fst y) = (acc @ p) @ suffix"
      "buf (snd (snd y)) = buf (if p \<noteq> [] then Write b p else b) @ suffix"
      "off (snd (snd y)) = off (if p \<noteq> [] then Write b p else b)"
      "closes (fst (snd y)) = closes rc"
      "script (fst (snd y)) = script rc"
      by auto
    then show ?thesis
      by (intro exI [of _ "p @ suffix"]) (auto simp: Write_def)
  next
    case (Some x)
    with 1(2) rd show ?thesis
      by (intro exI [of _ p]) (auto simp: teeRead_def Read_def Write_def split: if_splits)
  qed
qed

lemma ReadAll_tee:
  assumes "ReadAll rc \<lparr>buf = [], off = 0\<rparr> [] = Some ((bytes, e), rc', b')"
  shows "Bytes b' = bytes \<and> closes rc' = closes rc \<and> script rc' = script rc"
  using ReadAll_tee_aux [OF assms] by (auto simp: Bytes_def)

lemma BodyBytes_StatusCode:
  assumes "BodyBytes h r = Some (Returns (x, r', h'))"
  shows "\<exists>hr hr'. Response r = Some hr \<and> Response r' = Some hr'
           \<and> StatusCode hr' = StatusCode hr"
  using assms
  by (auto simp: BodyBytes_def alloc_def split: option.splits obj.splits prod.splits)

lemma switchReceiver_BodyBytes:
  assumes "BodyBytes h r = Some (Returns (x, r', h'))"
  shows "switchReceiver r' t = switchReceiver r t"
  using BodyBytes_StatusCode [OF assms]
  by (auto simp: switchReceiver_def split: iface.splits)

text \<open>The example stream is read in two calls of Read and closed once.\<close>

lemma example_ReadAll:
  "ReadAll example_stream \<lparr>buf = [], off = 0\<rparr> [] =
     Some (([104, 105, 33], None), example_stream\<lparr>pos := 2\<rparr>,
           \<lparr>buf = [104, 105, 33], off = 0\<rparr>)"
  apply (subst ReadAll.simps)
  apply (simp add: teeRead_def Read_def Write_def example_stream_def)
  apply (subst ReadAll.simps)
  apply (simp add: teeRead_def Read_def Write_def)
  done

lemma example_BodyBytes:
  "BodyBytes example_heap example_response =
     Some (Returns (([104, 105, 33], None), example_response_read, example_heap_read))"
proof -
  have "closes example_stream = 0" by (simp add: example_stream_def)
  then show ?thesis
    by (simp add: BodyBytes_def example_heap_def example_response_def lookup_def alloc_def
        example_ReadAll Close_def example_heap_read_def example_response_read_def)
qed

text \<open>
  C2: when \<open>BodyBytes\<close> has succeeded, a second call returns the same bytes and
  leaves the response and the store as they are, so it closes nothing. When the body
  was a transport stream, the first call has closed that stream once (its count of
  Close calls is one more than before) and has put in its place a \<open>bufCloser\<close> whose
  bytes are the ones returned.
\<close>

theorem BodyBytes_twice:
  assumes "BodyBytes h r = Some (Returns ((bytes, None), r1, h1))"
  shows "BodyBytes h1 r1 = Some (Returns ((bytes, None), r1, h1))
     \<and> (\<forall>hr a rc. Response r = Some hr \<and> resp_Body hr = Some a \<and> lookup h a = Some (Stream rc)
          \<longrightarrow> (\<exists>rc' p b. lookup h1 a = Some (Stream rc') \<and> closes rc' = Suc (closes rc)
                 \<and> Response r1 = Some (hr\<lparr>resp_Body := Some p\<rparr>)
                 \<and> lookup h1 p = Some (BufCloser b) \<and> Bytes b = bytes))"
proof -
  from assms obtain hr a where r: "Response r = Some hr" "resp_Body hr = Some a"
    by (auto simp: BodyBytes_def split: option.splits)
  with assms obtain x where x: "lookup h a = Some x"
    by (auto simp: BodyBytes_def split: option.splits)
  show ?thesis
  proof (cases x)
    case (BufCloser rc)
    with assms r x show ?thesis by (auto simp: BodyBytes_def)
  next
    case (Stream rc)
    with assms r x obtain rc' b' where
      ra: "ReadAll rc \<lparr>buf = [], off = 0\<rparr> [] = Some ((bytes, None), rc', b')"
      and r1: "r1 = r\<lparr>Response := Some (hr\<lparr>resp_Body := Some (length h)\<rparr>)\<rparr>"
      and h1: "h1 = (h @ [obj.BufCloser \<lparr>buf = [], off = 0\<rparr>])
                     [length h := obj.BufCloser b', a := obj.Stream (Close rc')]"
      by (auto simp: BodyBytes_def alloc_def split: option.splits)
    from x have a: "a < length h" by (auto simp: lookup_def split: if_splits)
    from ReadAll_tee [OF ra] have t: "Bytes b' = bytes" "closes rc' = closes rc" by auto
    from a have lp: "lookup h1 (length h) = Some (obj.BufCloser b')"
      by (simp add: h1 lookup_def nth_list_update)
    from a have la: "lookup h1 a = Some (obj.Stream (Close rc'))"
      by (simp add: h1 lookup_def)
    have "BodyBytes h1 r1 = Some (Returns ((bytes, None), r1, h1))"
      using lp t by (simp add: BodyBytes_def r1)
    moreover have "closes (Close rc') = Suc (closes rc)" using t by (simp add: Close_def)
    ultimately show ?thesis using r x Stream la lp t r1 by auto
  qed
qed

theorem BodyBytes_twice_witness:
  "BodyBytes example_heap example_response
     = Some (Returns (([104, 105, 33], None), example_response_read, example_heap_read))
   \<and> BodyBytes example_heap_read example_response_read
     = Some (Returns (([104, 105, 33], None), example_response_read, example_heap_read))
   \<and> lookup example_heap 0 = Some (Stream example_stream)
   \<and> closes example_stream = 0
   \<and> (\<exists>rc'. lookup example_heap_read 0 = Some (Stream rc') \<and> closes rc' = 1)"
  using BodyBytes_twice [OF example_BodyBytes] example_BodyBytes
  by (simp add: example_heap_def example_heap_read_def example_stream_def lookup_def)

section \<open>Decoding\<close>

lemma decodeTargets_append:
  "decodeTargets dec body r pre w calls = Returns (None, w1, calls1)
   \<Longrightarrow> decodeTargets dec body r (pre @ post) w calls
         = decodeTargets dec body r post w1 calls1"
proof (induction pre arbitrary: w calls)
  case Nil
  then show ?case by simp
next
  case (Cons t pre)
  then show ?case
    by (auto split: outcome.splits iface.splits option.splits prod.splits)
qed

lemma decodeTargets_skip:
  "switchReceiver r t = Returns Nil
   \<Longrightarrow> decodeTargets dec body r (pre @ t # post) w calls
         = decodeTargets dec body r (pre @ post) w calls"
proof (induction pre arbitrary: w calls)
  case Nil
  then show ?case by simp
next
  case (Cons t pre)
  then show ?case
    by (auto split: outcome.splits iface.splits option.splits prod.splits)
qed

lemma decodeTargets_all_nil:
  "decodeTargets dec body r (replicate n Nil) w calls = Returns (None, w, calls)"
  by (induction n) (simp_all add: switchReceiver_def)

lemma example_DecodeUsing_prefix:
  "DecodeUsing example_heap example_response (Some example_decoder)
     [Value 1, Hook (On2xx (Value 5))] []
   = Some (Returns (None, example_response_read, example_heap_read, [1], [Value 1]))"
  by (simp add: DecodeUsing_def example_BodyBytes switchReceiver_def example_decoder_def
      example_response_read_def On2xx_def)

text \<open>
  C3: let the body be read without error and let the targets before target \<open>t\<close> be
  decoded or skipped without error. When \<open>t\<close> stands for the receiver \<open>v\<close>, which is
  not nil, and the decoder fails on \<open>v\<close> with the error \<open>e\<close>, then \<open>DecodeUsing\<close>
  returns \<open>e\<close>, and its calls of Decode are those for the earlier targets followed by
  the one for \<open>v\<close>: none is made for the targets after \<open>t\<close>, whatever they are.
\<close>

theorem DecodeUsing_stops_at_first_error:
  assumes "BodyBytes h r = Some (Returns ((body, None), r', h'))"
    and "DecodeUsing h r (Some d) pre w = Some (Returns (None, r', h', w1, calls1))"
    and "switchReceiver r' t = Returns v" and "v \<noteq> Nil"
    and "d body v w1 = (Some e, w2)"
  shows "DecodeUsing h r (Some d) (pre @ t # post) w
           = Some (Returns (Some e, r', h', w2, calls1 @ [v]))"
proof -
  from assms(1,2)
  have pre: "decodeTargets (Some d) body r' pre w [] = Returns (None, w1, calls1)"
    by (auto simp: DecodeUsing_def split: outcome.splits)
  have "decodeTargets (Some d) body r' (t # post) w1 calls1
          = Returns (Some e, w2, calls1 @ [v])"
    using assms(3-5) by (cases v) simp_all
  with decodeTargets_append [OF pre, of "t # post"] assms(1) show ?thesis
    by (simp add: DecodeUsing_def)
qed

theorem DecodeUsing_stops_at_first_error_witness:
  "BodyBytes example_heap example_response
     = Some (Returns (([104, 105, 33], None), example_response_read, example_heap_read))
   \<and> DecodeUsing example_heap example_response (Some example_decoder)
       [Value 1, Hook (On2xx (Value 5))] []
     = Some (Returns (None, example_response_read, example_heap_read, [1], [Value 1]))
   \<and> switchReceiver example_response_read (Value (2::nat)) = Returns (Value 2)
   \<and> Value (2::nat) \<noteq> Nil
   \<and> example_decoder [104, 105, 33] (Value 2) [1] = (Some (Opaque ''cannot decode''), [1])
   \<and> DecodeUsing example_heap example_response (Some example_decoder)
       [Value 1, Hook (On2xx (Value 5)), Value 2, Value 3, Hook (OnNon2xx (Value 4))] []
     = Some (Returns (Some (Opaque ''cannot decode''), example_response_read,
         example_heap_read, [1], [Value 1, Value 2]))"
proof -
  have sw: "switchReceiver example_response_read (Value 2) = Returns (Value (2::nat))"
    by (simp add: switchReceiver_def)
  have ne: "Value (2::nat) \<noteq> Nil" by simp
  have de: "example_decoder [104, 105, 33] (Value 2) [1] = (Some (Opaque ''cannot decode''), [1])"
    by (simp add: example_decoder_def)
  from DecodeUsing_stops_at_first_error
    [OF example_BodyBytes example_DecodeUsing_prefix sw ne de,
     of "[Value 3, Hook (OnNon2xx (Value 4))]"]
  show ?thesis using example_BodyBytes example_DecodeUsing_prefix sw de by simp
qed

text \<open>
  C4: a \<open>DecodeHook\<close> among the targets that returns nil at the status code of the
  response changes nothing: \<open>DecodeUsing\<close> returns the same error, makes the same
  calls of Decode and leaves the same state as it does on the targets without the
  hook, so the targets after the hook are processed as usual.
\<close>

theorem DecodeUsing_skips_unmatched_hook:
  assumes "Response r = Some hr" and "f (StatusCode hr) = Nil"
  shows "DecodeUsing h r dec (pre @ Hook f # post) w = DecodeUsing h r dec (pre @ post) w"
proof (cases "BodyBytes h r")
  case None
  then show ?thesis by (simp add: DecodeUsing_def)
next
  case (Some out)
  show ?thesis
  proof (cases out)
    case Panics
    with Some show ?thesis by (simp add: DecodeUsing_def)
  next
    case (Returns res)
    obtain body e r' h' where res: "res = ((body, e), r', h')"
      by (cases res) auto
    from Some Returns res have bb: "BodyBytes h r = Some (Returns ((body, e), r', h'))"
      by simp
    have "switchReceiver r (Hook f) = Returns Nil"
      using assms by (simp add: switchReceiver_def)
    then have sk: "switchReceiver r' (Hook f) = Returns Nil"
      by (simp add: switchReceiver_BodyBytes [OF bb])
    show ?thesis
      by (simp add: DecodeUsing_def bb decodeTargets_skip [OF sk] split: option.splits)
  qed
qed

theorem DecodeUsing_skips_unmatched_hook_witness:
  "Response example_response
     = Some \<lparr>StatusCode = 404, resp_Header = Map.empty, resp_Body = Some 0\<rparr>
   \<and> On2xx (Value (5::nat)) 404 = Nil
   \<and> DecodeUsing example_heap example_response (Some example_decoder)
       [Value 1, Hook (On2xx (Value 5)), Value 3] []
     = DecodeUsing example_heap example_response (Some example_decoder) [Value 1, Value 3] []
   \<and> DecodeUsing example_heap example_response (Some example_decoder) [Value 1, Value 3] []
     = Some (Returns (None, example_response_read, example_heap_read, [1, 3],
         [Value 1, Value 3]))"
proof -
  have r: "Response example_response
     = Some \<lparr>StatusCode = 404, resp_Header = Map.empty, resp_Body = Some 0\<rparr>"
    by (simp add: example_response_def)
  have f: "On2xx (Value (5::nat))
     (StatusCode \<lparr>StatusCode = 404, resp_Header = Map.empty, resp_Body = Some 0\<rparr>) = Nil"
    by (simp add: On2xx_def)
  have d: "DecodeUsing example_heap example_response (Some example_decoder)
       [Value 1, Value 3] []
     = Some (Returns (None, example_response_read, example_heap_read, [1, 3],
         [Value 1, Value 3]))"
    by (simp add: DecodeUsing_def example_BodyBytes switchReceiver_def example_decoder_def)
  from DecodeUsing_skips_unmatched_hook
    [of example_response _ "On2xx (Value 5)" example_heap "Some example_decoder"
      "[Value 1]" "[Value 3]" "[]", OF r f]
  show ?thesis using r f d by simp
qed

text \<open>
  C10: a target that is literally nil changes nothing either; and on targets that are
  all nil, none included, \<open>DecodeUsing\<close> does what \<open>BodyBytes\<close> does (it reads the
  body, replaces it by the buffer and closes the stream), makes no call of Decode and
  returns the error of \<open>BodyBytes\<close>, so it fails exactly when \<open>BodyBytes\<close> fails.
\<close>

theorem DecodeUsing_nil_targets:
  "DecodeUsing h r dec (pre @ Nil # post) w = DecodeUsing h r dec (pre @ post) w
   \<and> DecodeUsing h r dec (replicate n Nil) w =
       (case BodyBytes h r of
          None \<Rightarrow> None
        | Some Panics \<Rightarrow> Some Panics
        | Some (Returns ((body, e), r', h')) \<Rightarrow> Some (Returns (e, r', h', w, [])))"
proof -
  have skip: "\<And>r' body. decodeTargets dec body r' (pre @ Nil # post) w []
                 = decodeTargets dec body r' (pre @ post) w []"
    by (rule decodeTargets_skip) (simp add: switchReceiver_def)
  show ?thesis
    by (simp add: DecodeUsing_def skip decodeTargets_all_nil
        split: option.splits outcome.splits prod.splits)
qed

theorem DecodeUsing_nil_targets_witness:
  "DecodeUsing example_heap example_response (Some example_decoder) [Value 1, Nil, Value 3] []
     = DecodeUsing example_heap example_response (Some example_decoder) [Value 1, Value 3] []
   \<and> DecodeUsing example_heap example_response (None :: (nat, nat list) Decoder option) [] []
     = Some (Returns (None, example_response_read, example_heap_read, [], []))
   \<and> DecodeUsing example_heap example_response (Some example_decoder) [Nil, Nil] []
     = Some (Returns (None, example_response_read, example_heap_read, [], []))"
  using
    DecodeUsing_nil_targets
      [of example_heap example_response "Some example_decoder" "[Value 1]" "[Value 3]" "[]" 2]
    DecodeUsing_nil_targets
      [of example_heap example_response "None :: (nat, nat list) Decoder option" "[]" "[]" "[]" 0]
  by (simp add: example_BodyBytes numeral_2_eq_2)

section \<open>The client\<close>

lemma example_validate: "validate example_request = None"
  by (simp add: validate_def validMethod_iff example_request_def)

lemma example_buildRequest_refusing:
  "buildRequest example_lib refusing_client example_request =
     Inr \<lparr>req_Method = ''GET'', req_URL = ''http://example.com/user/204'', req_Body = None,
          req_Ctx = None, req_Header = Map.empty\<rparr>"
  by (simp add: buildRequest_def example_lib_def refusing_client_def example_request_def
      prepareBody_def)

lemma example_buildRequest_500:
  "buildRequest example_lib (client500 sv) example_request =
     Inr \<lparr>req_Method = ''GET'', req_URL = ''http://example.com/user/204'', req_Body = None,
          req_Ctx = None, req_Header = Map.empty\<rparr>"
  by (simp add: buildRequest_def example_lib_def client500_def example_request_def
      prepareBody_def)

text \<open>
  Whenever the transport returns an error, \<open>Do\<close> returns a nil \<open>*http.Response\<close> with
  it, and \<open>send\<close> wraps that nil in a new \<open>Response\<close>.
\<close>

lemma send_transport_error:
  assumes "validate request = None"
    and "buildRequest lib c request = Inr req"
    and "BaseClient c = Some d"
    and "d req = (x, Some e)"
  shows "Do c req = Returns (None, Some e)"
    and "send lib c request = Returns (Some \<lparr>Response = None\<rparr>, Some e)"
  using assms by (simp_all add: send_def Do_def)

text \<open>
  C1: the specification has a send whose transport fails return a nil \<open>*Response\<close>
  with the transport's error, as the other failing paths of \<open>send\<close> do. The code
  returns the error with a \<open>*Response\<close> that is not nil and embeds a nil
  \<open>*http.Response\<close>: here for a transport that refuses the connection.
\<close>

theorem send_transport_error_example:
  "send example_lib refusing_client example_request
     = Returns (Some \<lparr>Response = None\<rparr>, Some (Opaque ''connection refused''))
   \<and> send example_lib refusing_client example_request
     \<noteq> Returns (None, Some (Opaque ''connection refused''))"
proof -
  have bc: "BaseClient refusing_client
      = Some (\<lambda>req. (None, Some (Opaque ''connection refused'')))"
    by (simp add: refusing_client_def)
  have "send example_lib refusing_client example_request
      = Returns (Some \<lparr>Response = None\<rparr>, Some (Opaque ''connection refused''))"
    by (rule send_transport_error(2) [OF example_validate example_buildRequest_refusing bc])
      simp
  then show ?thesis by simp
qed

text \<open>
  C5: let the request pass validation and preparation and let the transport answer it
  with a response and no error. When the status validator is set and rejects the
  status code of the response, \<open>Do\<close> returns the response with the
  \<open>BadStatusError\<close> of that status code, and \<open>send\<close> returns this error with a
  \<open>*Response\<close> that is not nil and embeds the response. When the status validator is
  nil, both return the response and no error, whatever the status code.
\<close>

theorem send_status_validation:
  assumes "validate request = None"
    and "buildRequest lib c request = Inr req"
    and "BaseClient c = Some d"
    and "d req = (Some rsp, None)"
  shows "(\<forall>sv. StatusValidator c = Some sv \<and> \<not> sv (StatusCode rsp)
            \<longrightarrow> Do c req = Returns (Some rsp, Some (BadStatusError (StatusCode rsp)))
              \<and> send lib c request
                  = Returns (Some \<lparr>Response = Some rsp\<rparr>,
                      Some (BadStatusError (StatusCode rsp))))
       \<and> (StatusValidator c = None
            \<longrightarrow> Do c req = Returns (Some rsp, None)
              \<and> send lib c request = Returns (Some \<lparr>Response = Some rsp\<rparr>, None))"
  using assms by (simp add: send_def Do_def)

theorem send_status_validation_witness:
  "validate example_request = None
   \<and> StatusValidator (client500 (Some DefaultStatusValidator)) = Some DefaultStatusValidator
   \<and> \<not> DefaultStatusValidator (StatusCode response500)
   \<and> send example_lib (client500 (Some DefaultStatusValidator)) example_request
       = Returns (Some \<lparr>Response = Some response500\<rparr>, Some (BadStatusError 500))
   \<and> StatusValidator (client500 None) = None
   \<and> send example_lib (client500 None) example_request
       = Returns (Some \<lparr>Response = Some response500\<rparr>, None)"
proof -
  have bc: "\<And>sv. BaseClient (client500 sv) = Some (\<lambda>req. (Some response500, None))"
    by (simp add: client500_def)
  have d: "(\<lambda>req. (Some response500, None))
      \<lparr>req_Method = ''GET'', req_URL = ''http://example.com/user/204'', req_Body = None,
       req_Ctx = None, req_Header = Map.empty\<rparr> = (Some response500, None)"
    by simp
  from send_status_validation [OF example_validate example_buildRequest_500 bc d]
    send_status_validation [OF example_validate example_buildRequest_500 bc d]
  show ?thesis
    using example_validate
    by (simp add: client500_def response500_def DefaultStatusValidator_def)
qed

section \<open>The future\<close>

text \<open>
  When \<open>send\<close> returns, the goroutine assigns its results in the first step and closes
  the channel in the second, and nothing changes afterwards.
\<close>

lemma after_Returns:
  "after (Some (Returns (rsp, e))) n =
     (if n = 0 then Send
      else if n = 1
        then \<lparr>ftr = \<lparr>done_closed = False, response = rsp, err = e\<rparr>, goroutine = AtClose\<rparr>
        else \<lparr>ftr = \<lparr>done_closed = True, response = rsp, err = e\<rparr>, goroutine = Exited\<rparr>)"
proof (induction n)
  case 0
  show ?case by simp
next
  case (Suc n)
  then show ?case by (simp add: goroutine_step_def Send_def)
qed

text \<open>
  C9: let the call of \<open>send\<close> in the goroutine return the response pointer \<open>rsp\<close>
  and the error \<open>e\<close>. Once the channel is closed, \<open>Future.Response\<close> does not block
  and returns \<open>(rsp, e)\<close>, at that moment and at every later one: two calls after
  completion return the same pair.
\<close>

theorem Future_Response_after_completion:
  assumes "done_closed (ftr (after (Some (Returns (rsp, e))) n))" and "n \<le> m"
  shows "Future_Response (ftr (after (Some (Returns (rsp, e))) n)) = Some (rsp, e)
       \<and> Future_Response (ftr (after (Some (Returns (rsp, e))) m)) = Some (rsp, e)"
proof -
  from assms(1) have "2 \<le> n"
    by (cases "n = 0"; cases "n = 1") (simp_all add: after_Returns Send_def del: after.simps)
  with assms(2) show ?thesis
    by (simp add: after_Returns Future_Response_def del: after.simps)
qed

theorem Future_Response_after_completion_witness:
  "done_closed (ftr (after (Some (Returns (Some example_response, Some (BadStatusError 404)))) 2))
   \<and> (2::nat) \<le> 5
   \<and> Future_Response (ftr (after (Some (Returns (Some example_response, Some (BadStatusError 404)))) 2))
       = Some (Some example_response, Some (BadStatusError 404))
   \<and> Future_Response (ftr (after (Some (Returns (Some example_response, Some (BadStatusError 404)))) 5))
       = Some (Some example_response, Some (BadStatusError 404))"
proof -
  have d: "done_closed
      (ftr (after (Some (Returns (Some example_response, Some (BadStatusError 404)))) 2))"
    by (simp add: numeral_2_eq_2 goroutine_step_def Send_def)
  have le: "(2::nat) \<le> 5" by simp
  from Future_Response_after_completion [OF d le] show ?thesis using d by simp
qed

end
